theory Spec2Isabelle
  imports Complex_Main
begin

section \<open>JavaScript values\<close>

text \<open>
  The extractors are typed \<open>any\<close>: they read whatever object tree the XML library
  produced.  Such a tree is modelled as a JSON-like value.  A number inside a tree is an
  integer (a safe integer, printed in plain decimal notation); fractional literals are
  outside this model.  An object is the list of its properties, each key once, the first
  binding of a key being the one that is read.  Strings are lists of 8-bit characters.
\<close>

datatype jsval =
    JUndefined
  | JNull
  | JBool bool
  | JNum int
  | JStr string
  | JArr "jsval list"
  | JObj "(string \<times> jsval) list"

text \<open>
  A number computed by the program: \<open>NaN\<close> or a finite value.  Infinities are not
  modelled.
\<close>

datatype jsnum = NaN | Num rat

text \<open>
  What the program can throw: its own \<open>PoBParsingError\<close> (code, message, optional
  details) or a runtime \<open>TypeError\<close> (message).
\<close>

datatype ErrorCode =
    INVALID_BASE64
  | DECOMPRESSION_ERROR
  | INVALID_XML
  | UNSUPPORTED_VERSION
  | MISSING_REQUIRED_FIELD
  | PASSIVE_TREE_ERROR

datatype exn =
    PoBParsingError ErrorCode string "string option"
  | TypeError string

fun truthy :: "jsval \<Rightarrow> bool" where
  "truthy JUndefined = False"
| "truthy JNull = False"
| "truthy (JBool b) = b"
| "truthy (JNum n) = (n \<noteq> 0)"
| "truthy (JStr s) = (s \<noteq> [])"
| "truthy (JArr xs) = True"
| "truthy (JObj kvs) = True"

fun nullish :: "jsval \<Rightarrow> bool" where
  "nullish JUndefined = True"
| "nullish JNull = True"
| "nullish v = False"

text \<open>\<open>a || b\<close>\<close>

definition jor :: "jsval \<Rightarrow> jsval \<Rightarrow> jsval" where
  "jor a b = (if truthy a then a else b)"

text \<open>
  \<open>v.k\<close> for a receiver that is neither \<open>undefined\<close> nor \<open>null\<close>, and a key that is
  not a built-in property of strings, numbers or arrays (none of the keys read by the
  extractors is): an own property of an object, \<open>undefined\<close> otherwise.
\<close>

fun get :: "jsval \<Rightarrow> string \<Rightarrow> jsval" where
  "get (JObj kvs) k = (case map_of kvs k of Some v \<Rightarrow> v | None \<Rightarrow> JUndefined)"
| "get v k = JUndefined"

text \<open>\<open>v?.k\<close>\<close>

definition optget :: "jsval \<Rightarrow> string \<Rightarrow> jsval" where
  "optget v k = (if nullish v then JUndefined else get v k)"

text \<open>
  \<open>v.k\<close> for any receiver: reading a property of \<open>undefined\<close> or \<open>null\<close> throws.
  The message is the engine's, here without its quotation marks around the key.
\<close>

definition getProp :: "jsval \<Rightarrow> string \<Rightarrow> exn + jsval" where
  "getProp v k =
     (if v = JUndefined then
        Inl (TypeError (''Cannot read properties of undefined (reading '' @ k @ '')''))
      else if v = JNull then
        Inl (TypeError (''Cannot read properties of null (reading '' @ k @ '')''))
      else Inr (get v k))"

text \<open>\<open>Array.isArray(v) ? v : [v]\<close>\<close>

fun asArray :: "jsval \<Rightarrow> jsval list" where
  "asArray (JArr xs) = xs"
| "asArray v = [v]"

fun isArray :: "jsval \<Rightarrow> bool" where
  "isArray (JArr xs) = True"
| "isArray v = False"

text \<open>A loop body that may throw, run over a list in order: the first throw ends the loop.\<close>

fun forEach :: "('a \<Rightarrow> exn + 'b) \<Rightarrow> 'a list \<Rightarrow> exn + 'b list" where
  "forEach f [] = Inr []"
| "forEach f (x # xs) =
     (case f x of
        Inl e \<Rightarrow> Inl e
      | Inr y \<Rightarrow> (case forEach f xs of Inl e \<Rightarrow> Inl e | Inr ys \<Rightarrow> Inr (y # ys)))"

subsection \<open>Strings\<close>

text \<open>Lower case: the letters A to Z; every other character is left as it is.\<close>

definition toLowerCaseChar :: "char \<Rightarrow> char" where
  "toLowerCaseChar c =
     (let n = (of_char c :: nat) in if 65 \<le> n \<and> n \<le> 90 then char_of (n + 32) else c)"

definition toLowerCase :: "string \<Rightarrow> string" where
  "toLowerCase s = map toLowerCaseChar s"

fun startsWith :: "string \<Rightarrow> string \<Rightarrow> bool" where
  "startsWith s [] = True"
| "startsWith [] (c # cs) = False"
| "startsWith (x # xs) (c # cs) = (x = c \<and> startsWith xs cs)"

text \<open>\<open>s.includes(t)\<close>\<close>

fun str_includes :: "string \<Rightarrow> string \<Rightarrow> bool" where
  "str_includes [] t = (t = [])"
| "str_includes (x # xs) t = (startsWith (x # xs) t \<or> str_includes xs t)"

definition isDigit :: "char \<Rightarrow> bool" where
  "isDigit c = (let n = (of_char c :: nat) in 48 \<le> n \<and> n \<le> 57)"

text \<open>The white space of the language, among 8-bit characters.\<close>

definition isSpace :: "char \<Rightarrow> bool" where
  "isSpace c = (let n = (of_char c :: nat) in n = 32 \<or> (9 \<le> n \<and> n \<le> 13) \<or> n = 160)"

definition digitVal :: "char \<Rightarrow> nat" where
  "digitVal c = of_char c - 48"

definition digitChar :: "nat \<Rightarrow> char" where
  "digitChar d = char_of (48 + d)"

fun showNat :: "nat \<Rightarrow> string" where
  "showNat n = (if n < 10 then [digitChar n] else showNat (n div 10) @ [digitChar (n mod 10)])"

declare showNat.simps [simp del]

definition showInt :: "int \<Rightarrow> string" where
  "showInt i = (if i < 0 then CHR ''-'' # showNat (nat (- i)) else showNat (nat i))"

fun join :: "string \<Rightarrow> string list \<Rightarrow> string" where
  "join sep [] = []"
| "join sep [s] = s"
| "join sep (s # t # ts) = s @ sep @ join sep (t # ts)"

text \<open>
  The string conversion used by template literals, \<open>parseInt\<close> and comparisons.  An
  array prints its elements separated by commas, \<open>undefined\<close> and \<open>null\<close> elements as
  nothing.
\<close>

fun ToString :: "jsval \<Rightarrow> string" where
  "ToString JUndefined = ''undefined''"
| "ToString JNull = ''null''"
| "ToString (JBool b) = (if b then ''true'' else ''false'')"
| "ToString (JNum n) = showInt n"
| "ToString (JStr s) = s"
| "ToString (JArr xs) = join '','' (map (\<lambda>v. if nullish v then [] else ToString v) xs)"
| "ToString (JObj kvs) = ''[object Object]''"

text \<open>
  \<open>parseInt(s, 10)\<close> on a string: leading white space is skipped, then an optional sign,
  then the longest run of decimal digits; no digit gives \<open>NaN\<close>.
\<close>

definition digitsValue :: "string \<Rightarrow> nat" where
  "digitsValue ds = foldl (\<lambda>a d. 10 * a + digitVal d) 0 ds"

definition parseIntStr :: "string \<Rightarrow> jsnum" where
  "parseIntStr s =
     (let t = dropWhile isSpace s;
          neg = (t \<noteq> [] \<and> hd t = CHR ''-'');
          u = (if t \<noteq> [] \<and> (hd t = CHR ''-'' \<or> hd t = CHR ''+'') then tl t else t);
          ds = takeWhile isDigit u
      in if ds = [] then NaN
         else if neg then Num (- of_nat (digitsValue ds))
         else Num (of_nat (digitsValue ds)))"

definition parseInt :: "jsval \<Rightarrow> jsnum" where
  "parseInt v = parseIntStr (ToString v)"

text \<open>\<open>Math.max(a, b)\<close> and \<open>Math.min(a, b)\<close>: \<open>NaN\<close> if either argument is.\<close>

fun Math_max :: "jsnum \<Rightarrow> jsnum \<Rightarrow> jsnum" where
  "Math_max (Num x) (Num y) = Num (max x y)"
| "Math_max a b = NaN"

fun Math_min :: "jsnum \<Rightarrow> jsnum \<Rightarrow> jsnum" where
  "Math_min (Num x) (Num y) = Num (min x y)"
| "Math_min a b = NaN"

section \<open>Character extractor\<close>

record Character =
  characterClass :: jsval
  ascendancy :: jsval
  level :: jsnum
  league :: jsval

definition parseCharacter :: "jsval \<Rightarrow> Character" where
  "parseCharacter buildSection =
     (if \<not> truthy buildSection then
        \<lparr> characterClass = JStr ''Witch'', ascendancy = JNull, level = Num 1, league = JNull \<rparr>
      else
        let mainSocket = get buildSection ''MainSocket'';
            cls = jor (jor (optget mainSocket ''class'') (get buildSection ''class''))
                      (JStr ''Witch'');
            asc = jor (jor (optget mainSocket ''ascendancyName'')
                           (get buildSection ''ascendancy'')) JNull;
            lvl = parseInt (jor (jor (get buildSection ''level'') (optget mainSocket ''level''))
                                (JStr ''1''));
            lg = jor (get buildSection ''league'') JNull
        in \<lparr> characterClass = cls, ascendancy = asc,
             level = Math_min (Num 100) (Math_max (Num 1) lvl), league = lg \<rparr>)"

section \<open>Skills extractor\<close>

record SupportGem =
  name :: jsval
  gemLevel' :: jsnum
  quality' :: jsnum

record SkillSetup =
  skillId :: string
  skillName :: jsval
  gemLevel :: jsnum
  quality :: jsnum
  supports :: "SupportGem list"
  linkCount :: nat
  isMainSkill :: jsval

text \<open>
  \<open>parseSupportGems\<close>: nothing unless \<open>skill.gems.Gem\<close> is an array; then the entries
  whose \<open>type\<close> is exactly the string \<open>Support\<close>.  The filter reads \<open>gem.type\<close> of
  every entry first, which throws on an \<open>undefined\<close> or \<open>null\<close> entry.
\<close>

definition parseSupportGems :: "jsval \<Rightarrow> exn + SupportGem list" where
  "parseSupportGems skill =
     (case getProp skill ''gems'' of
        Inl e \<Rightarrow> Inl e
      | Inr gemsNode \<Rightarrow>
          if \<not> truthy gemsNode \<or> \<not> isArray (get gemsNode ''Gem'') then Inr []
          else
            (case forEach (\<lambda>gem. case getProp gem ''type'' of
                                     Inl e \<Rightarrow> Inl e
                                   | Inr t \<Rightarrow> Inr (gem, t = JStr ''Support''))
                          (asArray (get gemsNode ''Gem'')) of
               Inl e \<Rightarrow> Inl e
             | Inr tagged \<Rightarrow>
                 Inr (map (\<lambda>gem. \<lparr> name = jor (get gem ''name'') (JStr ''Unknown''),
                                     gemLevel' = parseInt (jor (get gem ''level'') (JStr ''1'')),
                                     quality' = parseInt (jor (get gem ''quality'') (JStr ''0'')) \<rparr>)
                          (map fst (filter snd tagged)))))"

text \<open>
  \<open>calculateLinkCount\<close>: one more than the number of entries of \<open>skill.gems?.Gem\<close>,
  whatever their type; a single entry that is not an array counts as one.
\<close>

definition calculateLinkCount :: "jsval \<Rightarrow> exn + nat" where
  "calculateLinkCount skill =
     (case getProp skill ''gems'' of
        Inl e \<Rightarrow> Inl e
      | Inr gemsNode \<Rightarrow>
          let g = optget gemsNode ''Gem'';
              supportCount = (if truthy g then (if isArray g then length (asArray g) else 1) else 0)
          in Inr (supportCount + 1))"

text \<open>The body of the loop of \<open>parseSkills\<close>, for the entry \<open>skill\<close> at position \<open>index\<close>.\<close>

definition skillSetupOf :: "nat \<times> jsval \<Rightarrow> exn + SkillSetup" where
  "skillSetupOf p =
     (let index = fst p; skill = snd p in
      case getProp skill ''gem'' of
        Inl e \<Rightarrow> Inl e
      | Inr gem \<Rightarrow>
          (case parseSupportGems skill of
             Inl e \<Rightarrow> Inl e
           | Inr sups \<Rightarrow>
               (case calculateLinkCount skill of
                  Inl e \<Rightarrow> Inl e
                | Inr links \<Rightarrow>
                    Inr \<lparr> skillId = ''skill-'' @ showNat (index + 1),
                          skillName = jor (jor (optget gem ''name'') (get skill ''name''))
                                          (JStr ''Unknown''),
                          gemLevel = parseInt (jor (jor (optget gem ''level'') (get skill ''level''))
                                                   (JStr ''1'')),
                          quality = parseInt (jor (jor (optget gem ''quality'')
                                                       (get skill ''quality'')) (JStr ''0'')),
                          supports = sups,
                          linkCount = links,
                          isMainSkill = jor (get skill ''mainActive'') (JBool False) \<rparr>)))"

definition parseSkills :: "jsval \<Rightarrow> exn + SkillSetup list" where
  "parseSkills skillsSection =
     (if \<not> truthy skillsSection \<or> \<not> isArray (get skillsSection ''Skill'') then Inr []
      else
        let skillArray = asArray (get skillsSection ''Skill'')
        in forEach skillSetupOf (enumerate 0 skillArray))"

section \<open>Gear extractor\<close>

datatype AffixType = explicit | implicit | corrupted_implicit

record Affix =
  affixType :: AffixType
  affixText :: string
  affixValue :: "jsnum option"
  unparsed :: bool

record GearSlot =
  slot :: jsval
  itemName :: jsval
  baseType :: jsval
  itemClass :: jsval
  affixes :: "Affix list"
  implicitMod :: jsval
  corrupted :: bool
  influences :: "jsval list"

definition GEAR_SLOTS :: "string list" where
  "GEAR_SLOTS =
     [''Weapon1'', ''Weapon2'', ''Helmet'', ''BodyArmour'', ''Gloves'', ''Boots'', ''Amulet'',
      ''Ring1'', ''Ring2'', ''Belt'', ''Flask1'', ''Flask2'', ''Flask3'', ''Flask4'', ''Flask5'']"

definition createEmptySlot :: "string \<Rightarrow> GearSlot" where
  "createEmptySlot s =
     \<lparr> slot = JStr s, itemName = JStr ''Empty'', baseType = JStr [], itemClass = JStr [],
       affixes = [], implicitMod = JNull, corrupted = False, influences = [] \<rparr>"

text \<open>
  \<open>determineSlotType\<close>: the item's own \<open>slot\<close> if it has one; otherwise \<open>Flask1\<close> when
  the lower-cased name contains \<open>flask\<close>, else \<open>null\<close>.  A name that is not a string has
  no \<open>toLowerCase\<close>, and calling it throws.
\<close>

definition determineSlotType :: "jsval \<Rightarrow> exn + jsval" where
  "determineSlotType item =
     (case getProp item ''slot'' of
        Inl e \<Rightarrow> Inl e
      | Inr s \<Rightarrow>
          if truthy s then Inr s
          else if \<not> truthy (get item ''$'') then Inr JNull
          else
            (case get item ''$'' of
               JStr nm \<Rightarrow>
                 if str_includes (toLowerCase nm) ''flask'' then Inr (JStr ''Flask1'')
                 else Inr JNull
             | _ \<Rightarrow> Inl (TypeError ''item.$.toLowerCase is not a function'')))"

definition determineAffixType :: "jsval \<Rightarrow> exn + AffixType" where
  "determineAffixType m =
     (case getProp m ''type'' of
        Inl e \<Rightarrow> Inl e
      | Inr t \<Rightarrow>
          if t = JStr ''implicit'' then Inr implicit
          else if get m ''corrupted'' = JBool True \<or> get m ''corrupted'' = JStr ''true''
          then Inr corrupted_implicit
          else Inr explicit)"

text \<open>
  \<open>parseAffixValue\<close>: the first run of characters among \<open>-\<close> and the digits, read by
  \<open>parseInt\<close>; \<open>null\<close> when the text has no such character.
\<close>

definition isDashOrDigit :: "char \<Rightarrow> bool" where
  "isDashOrDigit c = (c = CHR ''-'' \<or> isDigit c)"

definition parseAffixValue :: "string \<Rightarrow> jsnum option" where
  "parseAffixValue t =
     (let run = takeWhile isDashOrDigit (dropWhile (\<lambda>c. \<not> isDashOrDigit c) t)
      in if run = [] then None else Some (parseIntStr run))"

definition affixOf :: "jsval \<Rightarrow> exn + Affix" where
  "affixOf m =
     (case determineAffixType m of
        Inl e \<Rightarrow> Inl e
      | Inr ty \<Rightarrow>
          (case jor (jor (get m ''str'') (get m ''$'')) (JStr []) of
             JStr t \<Rightarrow>
               Inr \<lparr> affixType = ty, affixText = t, affixValue = parseAffixValue t,
                     unparsed = (get m ''value'' = JUndefined) \<rparr>
           | _ \<Rightarrow> Inl (TypeError ''text.match is not a function'')))"

definition parseAffixes :: "jsval \<Rightarrow> exn + Affix list" where
  "parseAffixes item =
     (case getProp item ''mods'' of
        Inl e \<Rightarrow> Inl e
      | Inr mods \<Rightarrow>
          if \<not> truthy mods \<or> \<not> truthy (get mods ''mod'') then Inr []
          else forEach affixOf (asArray (get mods ''mod'')))"

text \<open>
  \<open>parseInfluences\<close>: a string as it is, the elements of an array, or the keys of an
  object whose value is \<open>true\<close> or the string \<open>true\<close>.
\<close>

definition parseInfluences :: "jsval \<Rightarrow> exn + jsval list" where
  "parseInfluences item =
     (case getProp item ''influences'' of
        Inl e \<Rightarrow> Inl e
      | Inr infl \<Rightarrow>
          if \<not> truthy infl then Inr []
          else
            (case infl of
               JStr s \<Rightarrow> Inr [JStr s]
             | JArr xs \<Rightarrow> Inr xs
             | JObj kvs \<Rightarrow>
                 Inr (map JStr (filter (\<lambda>k. get infl k = JBool True \<or> get infl k = JStr ''true'')
                                       (remdups (map fst kvs))))
             | _ \<Rightarrow> Inr []))"

definition parseGearSlot :: "jsval \<Rightarrow> exn + GearSlot option" where
  "parseGearSlot item =
     (if \<not> truthy item \<or> \<not> truthy (get item ''$'') then Inr None
      else
        (case determineSlotType item of
           Inl e \<Rightarrow> Inl e
         | Inr slotType \<Rightarrow>
             if \<not> truthy slotType then Inr None
             else
               (case parseAffixes item of
                  Inl e \<Rightarrow> Inl e
                | Inr afs \<Rightarrow>
                    (case parseInfluences item of
                       Inl e \<Rightarrow> Inl e
                     | Inr infl \<Rightarrow>
                         Inr (Some \<lparr> slot = slotType,
                                     itemName = get item ''$'',
                                     baseType = jor (get item ''baseType'') (JStr []),
                                     itemClass = jor (get item ''itemClass'') (JStr []),
                                     affixes = afs,
                                     implicitMod = jor (get item ''implicit'') JNull,
                                     corrupted = (get item ''corrupted'' = JBool True
                                                  \<or> get item ''corrupted'' = JStr ''true''),
                                     influences = infl \<rparr>)))))"

text \<open>
  \<open>parseGear\<close>: every item that yields a slot is collected; then each of the fifteen
  slot types takes the first collected item with that slot, or the empty slot.
\<close>

definition fillSlot :: "GearSlot list \<Rightarrow> string \<Rightarrow> GearSlot" where
  "fillSlot gear slotType =
     (case find (\<lambda>g. slot g = JStr slotType) gear of
        Some existing \<Rightarrow> existing
      | None \<Rightarrow> createEmptySlot slotType)"

definition parseGear :: "jsval \<Rightarrow> exn + GearSlot list" where
  "parseGear gearSection =
     (if \<not> truthy gearSection \<or> \<not> truthy (get gearSection ''Item'') then
        Inr (map createEmptySlot GEAR_SLOTS)
      else
        (case forEach parseGearSlot (asArray (get gearSection ''Item'')) of
           Inl e \<Rightarrow> Inl e
         | Inr found \<Rightarrow>
             let gear = List.map_filter (\<lambda>x. x) found
             in Inr (map (fillSlot gear) GEAR_SLOTS)))"

section \<open>The parsed build\<close>

datatype StatSource = stat_explicit | stat_estimated | stat_calculated

record Stat =
  statName :: string
  statValue :: jsnum
  source :: StatSource

record Keystone =
  keystoneId :: jsval
  keystoneName :: jsval
  effect :: string

record PassiveTree =
  totalPoints :: nat
  nodes :: "jsval list"
  keystones :: "Keystone list"
  notables :: "Keystone list"
  treeVersion :: jsval

record ParsedBuild =
  buildId :: string
  version :: jsval
  gameVersion :: jsval
  character :: Character
  skills :: "SkillSetup list"
  passives :: PassiveTree
  gear :: "GearSlot list"
  stats :: "Stat list"
  parsedAt :: string

section \<open>Suggestion priorities\<close>

datatype PlaystyleType = clear | boss | hybrid | unknown

datatype DefensiveRating = glass_cannon | moderate | tanky | uber_viable

datatype OffensiveRating = low | moderate_offense | high | extreme

datatype SuggestionCategory = Gems | Passives | Gear | Utility

datatype SuggestionPriority = critical | important | optional

record BuildAnalysis =
  strengths :: "string list"
  weaknesses :: "string list"
  playstyleType :: PlaystyleType
  defensiveRating :: DefensiveRating
  offensiveRating :: OffensiveRating
  analyzedAt :: string

record Suggestion =
  category :: SuggestionCategory
  priority :: SuggestionPriority
  description :: string
  specificAction :: string
  expectedImpact :: string

definition criticalWeaknesses :: "string list" where
  "criticalWeaknesses =
     [''uncapped'', ''low life'', ''no chaos'', ''low energy shield'', ''vulnerable'', ''empty'']"

text \<open>
  \<open>criticalWeaknesses.some(indicator => analysis.weaknesses.some(w =>
  w.toLowerCase().includes(indicator)))\<close>
\<close>

definition addressesCriticalWeakness :: "BuildAnalysis \<Rightarrow> bool" where
  "addressesCriticalWeakness analysis =
     list_ex (\<lambda>indicator. list_ex (\<lambda>w. str_includes (toLowerCase w) indicator)
                                     (weaknesses analysis))
             criticalWeaknesses"

definition scoreSuggestionPriority :: "Suggestion \<Rightarrow> BuildAnalysis \<Rightarrow> Suggestion" where
  "scoreSuggestionPriority suggestion analysis =
     (let scored = suggestion;
          scored = (if addressesCriticalWeakness analysis \<and> priority scored \<noteq> critical
                    then scored\<lparr>priority := critical\<rparr> else scored)
      in if priority scored \<noteq> critical then
           let scored = (if (defensiveRating analysis = uber_viable
                             \<or> defensiveRating analysis = tanky)
                            \<and> (category scored = Passives \<or> category scored = Gear)
                            \<and> priority scored = important
                         then scored\<lparr>priority := optional\<rparr> else scored);
               scored = (if offensiveRating analysis = extreme
                            \<and> category scored = Gems
                            \<and> priority scored = important
                         then scored\<lparr>priority := optional\<rparr> else scored)
           in scored
         else scored)"

text \<open>
  The rule as the specification words it, for comparison: the suggestion's own description
  contains one of the critical phrases.
\<close>

definition spec_descriptionIsCritical :: "Suggestion \<Rightarrow> bool" where
  "spec_descriptionIsCritical suggestion =
     list_ex (\<lambda>indicator. str_includes (description suggestion) indicator) criticalWeaknesses"

section \<open>Defensive classification\<close>



















section \<open>Decoder\<close>

text \<open>
  What the program takes from its platform and its libraries, as parameters: base64
  decoding, the two inflate functions (\<open>Inl\<close> the message of the error they throw), the
  decoding of bytes as UTF-8 text, the XML parser (\<open>Inl\<close> the message of its error), the
  SHA-256 digest in hexadecimal, \<open>parseFloat\<close>, the contents of the keystone data file
  (a JSON array), the stack trace the runtime attaches to an error with a given message,
  and the two settings of the cache read from the environment.
\<close>

type_synonym Buffer = "char list"

record runtime =
  fromBase64 :: "string \<Rightarrow> Buffer"
  inflateSync :: "Buffer \<Rightarrow> string + Buffer"
  inflateRawSync :: "Buffer \<Rightarrow> string + Buffer"
  toUtf8 :: "Buffer \<Rightarrow> string"
  xmlParse :: "string \<Rightarrow> string + jsval"
  sha256Hex :: "string \<Rightarrow> string"
  parseFloat :: "string \<Rightarrow> jsnum"
  keystonesData :: "jsval list"
  stackOf :: "string \<Rightarrow> string"
  CACHE_MAX_SIZE :: nat
  CACHE_TTL_MS :: int

fun exnMessage :: "exn \<Rightarrow> string" where
  "exnMessage (PoBParsingError c m d) = m"
| "exnMessage (TypeError m) = m"

definition trim :: "string \<Rightarrow> string" where
  "trim s = rev (dropWhile isSpace (rev (dropWhile isSpace s)))"

text \<open>The characters of \<open>/^[A-Za-z0-9+/=]+$/\<close>.\<close>

definition isBase64Char :: "char \<Rightarrow> bool" where
  "isBase64Char c =
     (let n = (of_char c :: nat)
      in (65 \<le> n \<and> n \<le> 90) \<or> (97 \<le> n \<and> n \<le> 122) \<or> (48 \<le> n \<and> n \<le> 57)
         \<or> c = CHR ''+'' \<or> c = CHR ''/'' \<or> c = CHR ''='')"

definition decodeBase64 :: "runtime \<Rightarrow> string \<Rightarrow> exn + Buffer" where
  "decodeBase64 rt input =
     (if length (trim input) = 0 then
        Inl (PoBParsingError INVALID_BASE64 ''Input must be a non-empty base64 string'' None)
      else if \<not> list_all isBase64Char (trim input) then
        Inl (PoBParsingError INVALID_BASE64 ''Input contains invalid base64 characters'' None)
      else
        let decoded = fromBase64 rt (trim input)
        in if length decoded = 0 then
             Inl (PoBParsingError INVALID_BASE64 ''Decoded buffer is empty'' None)
           else Inr decoded)"

text \<open>
  \<open>decompressZlib\<close>: the error thrown for an empty result is thrown inside the \<open>try\<close>
  block and rethrown by its handler as it is; an error of \<open>inflateSync\<close> is wrapped, its
  message becoming the details.
\<close>

definition decompressZlib :: "runtime \<Rightarrow> Buffer \<Rightarrow> exn + string" where
  "decompressZlib rt compressed =
     (if length compressed = 0 then
        Inl (PoBParsingError DECOMPRESSION_ERROR ''Compressed buffer is empty'' None)
      else
        (case inflateSync rt compressed of
           Inr decompressed \<Rightarrow>
             if length decompressed = 0 then
               Inl (PoBParsingError DECOMPRESSION_ERROR ''Decompressed buffer is empty'' None)
             else Inr (toUtf8 rt decompressed)
         | Inl msg \<Rightarrow>
             Inl (PoBParsingError DECOMPRESSION_ERROR ''Failed to decompress zlib data''
                    (Some msg))))"

text \<open>
  \<open>decompressWithFallback\<close>: when \<open>decompressZlib\<close> throws \<open>zlibError\<close>, raw inflation is
  tried.  Its own error \<open>rawError\<close>, and \<open>zlibError\<close> thrown again for an empty result,
  are both caught by the inner handler, which throws one new error built from
  \<open>zlibError.message\<close> alone.
\<close>

definition bothFailed :: "exn \<Rightarrow> exn" where
  "bothFailed zlibError =
     PoBParsingError DECOMPRESSION_ERROR ''Failed to decompress with both zlib and raw deflate''
       (Some (''zlib: '' @ exnMessage zlibError))"

definition decompressWithFallback :: "runtime \<Rightarrow> Buffer \<Rightarrow> exn + string" where
  "decompressWithFallback rt compressed =
     (case decompressZlib rt compressed of
        Inr s \<Rightarrow> Inr s
      | Inl zlibError \<Rightarrow>
          (case inflateRawSync rt compressed of
             Inr decompressed \<Rightarrow>
               if length decompressed = 0 then Inl (bothFailed zlibError)
               else Inr (toUtf8 rt decompressed)
           | Inl rawError \<Rightarrow> Inl (bothFailed zlibError)))"

section \<open>Structural parser and version gate\<close>

text \<open>
  \<open>parsePoBXML\<close>: an error of the XML parser, or of reading \<open>PathOfBuilding\<close> from what it
  returned, is wrapped as invalid XML with the error's message as details.
\<close>

definition parsePoBXML :: "runtime \<Rightarrow> string \<Rightarrow> exn + jsval" where
  "parsePoBXML rt buildCode =
     (case decodeBase64 rt buildCode of
        Inl e \<Rightarrow> Inl e
      | Inr decodedBuffer \<Rightarrow>
          (case decompressWithFallback rt decodedBuffer of
             Inl e \<Rightarrow> Inl e
           | Inr xmlString \<Rightarrow>
               (case xmlParse rt xmlString of
                  Inl msg \<Rightarrow>
                    Inl (PoBParsingError INVALID_XML ''Failed to parse XML structure'' (Some msg))
                | Inr parsed \<Rightarrow>
                    (case getProp parsed ''PathOfBuilding'' of
                       Inl e \<Rightarrow>
                         Inl (PoBParsingError INVALID_XML ''Failed to parse XML structure''
                                (Some (exnMessage e)))
                     | Inr rootEl \<Rightarrow>
                         if \<not> truthy rootEl then
                           Inl (PoBParsingError INVALID_XML
                                  ''Root element must be <PathOfBuilding>'' None)
                         else Inr rootEl))))"

text \<open>Strings compare by their characters' codes, a proper prefix being smaller.\<close>

fun strLess :: "string \<Rightarrow> string \<Rightarrow> bool" where
  "strLess [] [] = False"
| "strLess [] (y # ys) = True"
| "strLess (x # xs) [] = False"
| "strLess (x # xs) (y # ys) =
     ((of_char x :: nat) < of_char y \<or> (x = y \<and> strLess xs ys))"

text \<open>
  \<open>v < s\<close> for a string \<open>s\<close> that is not a numeric literal: a string \<open>v\<close> compares as a
  string, an array or object by its string conversion, and a number or boolean compares as
  a number with \<open>NaN\<close>, which is false.
\<close>

fun lessThanString :: "jsval \<Rightarrow> string \<Rightarrow> bool" where
  "lessThanString (JStr a) s = strLess a s"
| "lessThanString (JArr xs) s = strLess (ToString (JArr xs)) s"
| "lessThanString (JObj kvs) s = strLess (ToString (JObj kvs)) s"
| "lessThanString v s = False"

definition minVersion :: string where
  "minVersion = ''1.4.170''"

definition validatePoBVersion :: "jsval \<Rightarrow> exn + unit" where
  "validatePoBVersion pobXML =
     (case getProp pobXML ''version'' of
        Inl e \<Rightarrow> Inl e
      | Inr v \<Rightarrow>
          if \<not> truthy v then
            Inl (PoBParsingError UNSUPPORTED_VERSION ''PoB version not specified'' None)
          else if lessThanString v minVersion then
            Inl (PoBParsingError UNSUPPORTED_VERSION
                   (''PoB version '' @ ToString v @ '' is not supported (minimum: ''
                      @ minVersion @ '')'')
                   None)
          else Inr ())"

section \<open>Passive and stat extractors\<close>

text \<open>
  One entry of \<open>spec.nodes.node\<close>: a string is a node id; an array or object contributes
  its \<open>$\<close> if that is truthy; \<open>null\<close> has type \<open>object\<close> too, and reading its \<open>$\<close> throws.
\<close>

fun nodeIdOf :: "jsval \<Rightarrow> exn + jsval list" where
  "nodeIdOf (JStr s) = Inr [JStr s]"
| "nodeIdOf JNull = Inl (TypeError ''Cannot read properties of null (reading $)'')"
| "nodeIdOf (JArr xs) = Inr (if truthy (get (JArr xs) ''$'') then [get (JArr xs) ''$''] else [])"
| "nodeIdOf (JObj kvs) = Inr (if truthy (get (JObj kvs) ''$'') then [get (JObj kvs) ''$''] else [])"
| "nodeIdOf v = Inr []"

definition nodesOfSpec :: "jsval \<Rightarrow> exn + jsval list" where
  "nodesOfSpec spec =
     (case getProp spec ''nodes'' of
        Inl e \<Rightarrow> Inl e
      | Inr nd \<Rightarrow>
          if truthy nd \<and> truthy (get nd ''node'') then
            (case forEach nodeIdOf (asArray (get nd ''node'')) of
               Inl e \<Rightarrow> Inl e
             | Inr ids \<Rightarrow> Inr (concat ids))
          else Inr [])"

definition extractNodeIds :: "jsval \<Rightarrow> exn + jsval list" where
  "extractNodeIds treeSection =
     (case getProp treeSection ''Specs'' of
        Inl e \<Rightarrow> Inl e
      | Inr specsNode \<Rightarrow>
          if truthy specsNode \<and> truthy (get specsNode ''Spec'') then
            (case forEach nodesOfSpec (asArray (get specsNode ''Spec'')) of
               Inl e \<Rightarrow> Inl e
             | Inr ids \<Rightarrow> Inr (concat ids))
          else Inr [])"

text \<open>\<open>k.effects?.join("; ") || ""\<close>\<close>

definition effectOf :: "jsval \<Rightarrow> exn + string" where
  "effectOf k =
     (case get k ''effects'' of
        JUndefined \<Rightarrow> Inr []
      | JNull \<Rightarrow> Inr []
      | JArr xs \<Rightarrow> Inr (join ''; '' (map (\<lambda>v. if nullish v then [] else ToString v) xs))
      | _ \<Rightarrow> Inl (TypeError ''k.effects?.join is not a function''))"

definition keystoneEntry :: "jsval \<Rightarrow> exn + jsval \<times> Keystone" where
  "keystoneEntry k =
     (case getProp k ''id'' of
        Inl e \<Rightarrow> Inl e
      | Inr i \<Rightarrow>
          (case effectOf k of
             Inl e \<Rightarrow> Inl e
           | Inr eff \<Rightarrow>
               Inr (i, \<lparr> keystoneId = i, keystoneName = get k ''name'', effect = eff \<rparr>)))"

text \<open>
  A key of the keystone map is found by value when it is a primitive; an array or object
  is only equal to itself, so it is never found.  The last entry with a key is the one the
  map holds.
\<close>

fun isPrimitive :: "jsval \<Rightarrow> bool" where
  "isPrimitive (JArr xs) = False"
| "isPrimitive (JObj kvs) = False"
| "isPrimitive v = True"

definition keystoneLookup :: "(jsval \<times> Keystone) list \<Rightarrow> jsval \<Rightarrow> Keystone option" where
  "keystoneLookup entries nodeId =
     (if isPrimitive nodeId then map_of (rev entries) nodeId else None)"

definition identifySpecialNodes :: "runtime \<Rightarrow> jsval list \<Rightarrow> exn + Keystone list \<times> Keystone list" where
  "identifySpecialNodes rt nodeIds =
     (case forEach keystoneEntry (keystonesData rt) of
        Inl e \<Rightarrow> Inl e
      | Inr entries \<Rightarrow> Inr (List.map_filter (keystoneLookup entries) nodeIds, []))"

definition parsePassives :: "runtime \<Rightarrow> jsval \<Rightarrow> exn + PassiveTree" where
  "parsePassives rt treeSection =
     (if \<not> truthy treeSection then
        Inr \<lparr> totalPoints = 0, nodes = [], keystones = [], notables = [],
              treeVersion = JStr ''unknown'' \<rparr>
      else
        (case extractNodeIds treeSection of
           Inl e \<Rightarrow> Inl e
         | Inr ids \<Rightarrow>
             (case identifySpecialNodes rt ids of
                Inl e \<Rightarrow> Inl e
              | Inr special \<Rightarrow>
                  Inr \<lparr> totalPoints = length ids, nodes = ids, keystones = fst special,
                        notables = snd special,
                        treeVersion = jor (get treeSection ''version'') (JStr ''unknown'') \<rparr>)))"

text \<open>
  \<open>parseStatValue\<close>: a number as it is; a string through \<open>parseFloat\<close> unless that is
  \<open>NaN\<close>; an array or object through its \<open>$.value\<close>; zero otherwise.  \<open>null\<close> has type
  \<open>object\<close>, and reading its \<open>$\<close> throws.
\<close>

definition parseStatValue :: "runtime \<Rightarrow> jsval \<Rightarrow> exn + jsnum" where
  "parseStatValue rt v =
     (case v of
        JNum n \<Rightarrow> Inr (Num (of_int n))
      | JStr s \<Rightarrow> (case parseFloat rt s of NaN \<Rightarrow> Inr (Num 0) | Num q \<Rightarrow> Inr (Num q))
      | JNull \<Rightarrow> Inl (TypeError ''Cannot read properties of null (reading $)'')
      | JUndefined \<Rightarrow> Inr (Num 0)
      | JBool b \<Rightarrow> Inr (Num 0)
      | _ \<Rightarrow>
          (case getProp (get v ''$'') ''value'' of
             Inl e \<Rightarrow> Inl e
           | Inr x \<Rightarrow>
               if x \<noteq> JUndefined then Inr (parseFloat rt (ToString x)) else Inr (Num 0)))"

text \<open>
  One entry of the stat list.  The name is \<open>stat.$.toString()\<close>: reading \<open>toString\<close>
  from an absent \<open>stat.$\<close> throws; every other value has the method, and it gives the
  string conversion.
\<close>

definition statOf :: "runtime \<Rightarrow> jsval \<Rightarrow> exn + Stat" where
  "statOf rt stat =
     (case getProp stat ''$'' of
        Inl e \<Rightarrow> Inl e
      | Inr d \<Rightarrow>
          (case getProp d ''toString'' of
             Inl e \<Rightarrow> Inl e
           | Inr _ \<Rightarrow>
               (case parseStatValue rt (jor (get stat ''value'') d) of
                  Inl e \<Rightarrow> Inl e
                | Inr x \<Rightarrow>
                    Inr \<lparr> statName = ToString d, statValue = x, source = stat_explicit \<rparr>)))"

definition getDefaultStats :: "Stat list" where
  "getDefaultStats =
     [\<lparr> statName = ''Life'', statValue = Num 0, source = stat_estimated \<rparr>,
      \<lparr> statName = ''Energy Shield'', statValue = Num 0, source = stat_estimated \<rparr>,
      \<lparr> statName = ''Fire Resistance'', statValue = Num 0, source = stat_estimated \<rparr>,
      \<lparr> statName = ''Cold Resistance'', statValue = Num 0, source = stat_estimated \<rparr>,
      \<lparr> statName = ''Lightning Resistance'', statValue = Num 0, source = stat_estimated \<rparr>,
      \<lparr> statName = ''Chaos Resistance'', statValue = Num 0, source = stat_estimated \<rparr>]"

definition parseStats :: "runtime \<Rightarrow> jsval \<Rightarrow> exn + Stat list" where
  "parseStats rt statsSection =
     (if \<not> truthy statsSection \<or> \<not> truthy (get statsSection ''Stat'') then Inr getDefaultStats
      else forEach (statOf rt) (asArray (get statsSection ''Stat'')))"

section \<open>Content cache\<close>

text \<open>
  The cache is an instance of a library's least-recently-used cache, created with a
  maximum size, a time to live and \<open>updateAgeOnGet\<close>.  It is modelled as the list of its
  entries, the most recently used first, each with the time its age counts from, in
  milliseconds.  A value
  of zero for the maximum size or for the time to live switches that limit off.
\<close>

record CacheEntry =
  cacheKey :: string
  cached :: ParsedBuild
  start :: int

type_synonym BuildCache = "CacheEntry list"

definition isStale :: "runtime \<Rightarrow> int \<Rightarrow> CacheEntry \<Rightarrow> bool" where
  "isStale rt now e = (CACHE_TTL_MS rt \<noteq> 0 \<and> now - start e > CACHE_TTL_MS rt)"

text \<open>
  \<open>get\<close>: a missing key is a miss; a stale entry is deleted and is a miss; a live entry
  is returned, moved to the front, and its age starts again.
\<close>

definition cacheGet :: "runtime \<Rightarrow> int \<Rightarrow> string \<Rightarrow> BuildCache \<Rightarrow> ParsedBuild option \<times> BuildCache" where
  "cacheGet rt now k c =
     (case find (\<lambda>e. cacheKey e = k) c of
        None \<Rightarrow> (None, c)
      | Some e \<Rightarrow>
          if isStale rt now e then (None, filter (\<lambda>e. cacheKey e \<noteq> k) c)
          else (Some (cached e), e\<lparr>start := now\<rparr> # filter (\<lambda>e. cacheKey e \<noteq> k) c))"

text \<open>
  \<open>set\<close>: the entry goes to the front, replacing any entry with the same key; when the
  cache then holds more than the maximum, the least recently used entry is dropped.
\<close>

definition cacheSet :: "runtime \<Rightarrow> int \<Rightarrow> string \<Rightarrow> ParsedBuild \<Rightarrow> BuildCache \<Rightarrow> BuildCache" where
  "cacheSet rt now k v c =
     (let c' = \<lparr> cacheKey = k, cached = v, start = now \<rparr> # filter (\<lambda>e. cacheKey e \<noteq> k) c
      in if CACHE_MAX_SIZE rt \<noteq> 0 \<and> length c' > CACHE_MAX_SIZE rt then butlast c' else c')"

definition generateCacheKey :: "runtime \<Rightarrow> string \<Rightarrow> string" where
  "generateCacheKey rt buildCode = sha256Hex rt buildCode"

definition getCachedBuild :: "runtime \<Rightarrow> int \<Rightarrow> BuildCache \<Rightarrow> string \<Rightarrow> ParsedBuild option \<times> BuildCache" where
  "getCachedBuild rt now c buildCode = cacheGet rt now (generateCacheKey rt buildCode) c"

definition setCachedBuild :: "runtime \<Rightarrow> int \<Rightarrow> BuildCache \<Rightarrow> string \<Rightarrow> ParsedBuild \<Rightarrow> BuildCache" where
  "setCachedBuild rt now c buildCode build = cacheSet rt now (generateCacheKey rt buildCode) build c"

section \<open>The parse operation\<close>

record McpError =
  code :: ErrorCode
  message :: string
  details :: string

text \<open>
  What \<open>handler\<close> returns, before it is printed as JSON: the build, or the error response.
\<close>

datatype response = Success ParsedBuild | Failure McpError

definition createErrorResponse :: "ErrorCode \<Rightarrow> string \<Rightarrow> string option \<Rightarrow> McpError" where
  "createErrorResponse c m d =
     \<lparr> code = c, message = m, details = (case d of Some x \<Rightarrow> x | None \<Rightarrow> []) \<rparr>"

fun wrapError :: "runtime \<Rightarrow> exn \<Rightarrow> string \<Rightarrow> McpError" where
  "wrapError rt (PoBParsingError c m d) context = createErrorResponse c m d"
| "wrapError rt (TypeError m) context =
     createErrorResponse INVALID_XML (context @ '': '' @ m) (Some (stackOf rt m))"

text \<open>
  The times one call reads from the clock: at the cache lookup, when the build is stamped
  (as the ISO text of that time) and at the cache store.
\<close>

record clock =
  atLookup :: int
  atParsed :: string
  atStore :: int

text \<open>The body of \<open>handler\<close> after a cache miss, up to the assembled build.\<close>

definition parseUncached :: "runtime \<Rightarrow> clock \<Rightarrow> string \<Rightarrow> exn + ParsedBuild" where
  "parseUncached rt clk buildCode =
     (case parsePoBXML rt buildCode of
        Inl e \<Rightarrow> Inl e
      | Inr pobXML \<Rightarrow>
          (case validatePoBVersion pobXML of
             Inl e \<Rightarrow> Inl e
           | Inr _ \<Rightarrow>
               (case parseSkills (get pobXML ''Skills'') of
                  Inl e \<Rightarrow> Inl e
                | Inr sk \<Rightarrow>
                    (case parsePassives rt (get pobXML ''Tree'') of
                       Inl e \<Rightarrow> Inl e
                     | Inr pa \<Rightarrow>
                         (case parseGear (get pobXML ''Gear'') of
                            Inl e \<Rightarrow> Inl e
                          | Inr ge \<Rightarrow>
                              (case parseStats rt (get pobXML ''Stats'') of
                                 Inl e \<Rightarrow> Inl e
                               | Inr st \<Rightarrow>
                                   Inr \<lparr> buildId = [],
                                         version = get pobXML ''version'',
                                         gameVersion = jor (get pobXML ''gameVersion'')
                                                           (JStr ''3.25.0''),
                                         character = parseCharacter (get pobXML ''Build''),
                                         skills = sk,
                                         passives = pa,
                                         gear = ge,
                                         stats = st,
                                         parsedAt = atParsed clk \<rparr>))))))"

definition handler :: "runtime \<Rightarrow> clock \<Rightarrow> BuildCache \<Rightarrow> string \<Rightarrow> response \<times> BuildCache" where
  "handler rt clk c buildCode =
     (case getCachedBuild rt (atLookup clk) c buildCode of
        (Some cachedBuild, c1) \<Rightarrow> (Success cachedBuild, c1)
      | (None, c1) \<Rightarrow>
          (case parseUncached rt clk buildCode of
             Inl e \<Rightarrow> (Failure (wrapError rt e ''parse_pob_code''), c1)
           | Inr build \<Rightarrow> (Success build, setCachedBuild rt (atStore clk) c1 buildCode build)))"

text \<open>A sequence of calls, each with its clock readings, from a given state of the cache.\<close>

fun serve :: "runtime \<Rightarrow> BuildCache \<Rightarrow> (clock \<times> string) list \<Rightarrow> response list" where
  "serve rt c [] = []"
| "serve rt c (call # calls) =
     (let r = handler rt (fst call) c (snd call) in fst r # serve rt (snd r) calls)"

section \<open>Example inputs\<close>

text \<open>A build section whose level attribute is not numeric.\<close>

definition buildSectionBadLevel :: jsval where
  "buildSectionBadLevel = JObj [(''level'', JStr ''abc'')]"

text \<open>
  A skills section with one skill entry: the XML library delivers a single child element
  as an object, and an array only when the element is repeated.
\<close>

definition skillsSectionOne :: jsval where
  "skillsSectionOne =
     JObj [(''Skill'', JObj [(''name'', JStr ''Fireball''),
                             (''gems'', JObj [(''Gem'', JArr
                                [JObj [(''name'', JStr ''Spell Echo''), (''type'', JStr ''Support'')],
                                 JObj [(''name'', JStr ''Fire Penetration''),
                                       (''type'', JStr ''Support'')]])])])]"

text \<open>
  A skills section with two skill entries: the first links an active gem and a support
  gem, the second a single support gem.
\<close>

definition skillsSectionTwo :: jsval where
  "skillsSectionTwo =
     JObj [(''Skill'', JArr
       [JObj [(''name'', JStr ''Fireball''),
              (''gems'', JObj [(''Gem'', JArr
                 [JObj [(''name'', JStr ''Fireball''), (''type'', JStr ''Active'')],
                  JObj [(''name'', JStr ''Spell Echo''), (''type'', JStr ''Support'')]])])],
        JObj [(''name'', JStr ''Arc''),
              (''gems'', JObj [(''Gem'',
                  JObj [(''name'', JStr ''Added Lightning''), (''type'', JStr ''Support'')])])]])]"

text \<open>A gear section with a flask that has no slot and a sword in the first weapon slot.\<close>

definition gearExample :: jsval where
  "gearExample =
     JObj [(''Item'', JArr [JObj [(''$'', JStr ''Ruby Flask'')],
                            JObj [(''$'', JStr ''Sword''), (''slot'', JStr ''Weapon1'')]])]"

text \<open>A gear section whose only item has a number where its name should be.\<close>

definition gearNumericName :: jsval where
  "gearNumericName = JObj [(''Item'', JObj [(''$'', JNum 5)])]"

text \<open>
  An analysis that lists an uncapped resistance, and one that lists nothing; a suggestion
  whose description has no critical phrase, and one whose description has one.
\<close>

definition analysisUncapped :: BuildAnalysis where
  "analysisUncapped =
     \<lparr> strengths = [], weaknesses = [''Uncapped fire resistance (30%)''],
       playstyleType = unknown, defensiveRating = glass_cannon, offensiveRating = low,
       analyzedAt = ''2026-01-15T10:30:05Z'' \<rparr>"

definition analysisNoWeakness :: BuildAnalysis where
  "analysisNoWeakness =
     \<lparr> strengths = [], weaknesses = [],
       playstyleType = unknown, defensiveRating = glass_cannon, offensiveRating = low,
       analyzedAt = ''2026-01-15T10:30:05Z'' \<rparr>"

definition suggestionSwapGem :: Suggestion where
  "suggestionSwapGem =
     \<lparr> category = Gems, priority = optional,
       description = ''Add Multistrike Support to Kinetic Blast'',
       specificAction = ''Insert Multistrike in link 2'',
       expectedImpact = ''More attack speed'' \<rparr>"

definition suggestionEmptySlot :: Suggestion where
  "suggestionEmptySlot =
     \<lparr> category = Gear, priority = optional,
       description = ''Fill the empty ring slot'',
       specificAction = ''Equip a ring with resistances'',
       expectedImpact = ''More resistances'' \<rparr>"







text \<open>
  An example platform.  Its base64 decoder knows six build codes; inflation is the
  identity except on the bytes of the corrupt code; the digest is the identity.  The XML
  parser knows the six documents and delivers them as the library does under the options
  \<open>parsePoBXML\<close> creates it with (attributes kept, no attribute name prefix chosen,
  values parsed): a child element under its name, an attribute under its name prefixed
  with \<open>@_\<close>, and numeric text as a number.
\<close>

definition docOld :: string where
  "docOld = ''<PathOfBuilding><version>1.4.100</version></PathOfBuilding>''"

definition docNew :: string where
  "docNew = ''<PathOfBuilding><version>1.4.170</version><Build><level>90</level></Build></PathOfBuilding>''"

definition docNoVersion :: string where
  "docNoVersion = ''<PathOfBuilding><Build><level>90</level></Build></PathOfBuilding>''"

definition docEmptyVersion :: string where
  "docEmptyVersion = ''<PathOfBuilding><version></version></PathOfBuilding>''"

text \<open>The root declares the version 1.4.100 as an attribute, the way the format does.\<close>

definition docVersionAttribute :: string where
  "docVersionAttribute =
     ''<PathOfBuilding version='' @ [CHR 0x22] @ ''1.4.100'' @ [CHR 0x22]
       @ ''><Build><level>90</level></Build></PathOfBuilding>''"

text \<open>The root has a child element \<open>version\<close> whose text is the number 1.\<close>

definition docNumericVersion :: string where
  "docNumericVersion = ''<PathOfBuilding><version>1</version></PathOfBuilding>''"

definition exampleFromBase64 :: "string \<Rightarrow> Buffer" where
  "exampleFromBase64 s =
     (if s = ''b2xk'' then docOld
      else if s = ''bmV3'' then docNew
      else if s = ''bm9uZQ=='' then docNoVersion
      else if s = ''ZW1wdHk='' then docEmptyVersion
      else if s = ''YXR0cg=='' then docVersionAttribute
      else if s = ''bnVt'' then docNumericVersion
      else s)"

definition exampleXmlParse :: "string \<Rightarrow> string + jsval" where
  "exampleXmlParse s =
     (if s = docOld then
        Inr (JObj [(''PathOfBuilding'', JObj [(''version'', JStr ''1.4.100'')])])
      else if s = docNew then
        Inr (JObj [(''PathOfBuilding'',
                    JObj [(''version'', JStr ''1.4.170''),
                          (''Build'', JObj [(''level'', JNum 90)])])])
      else if s = docNoVersion then
        Inr (JObj [(''PathOfBuilding'', JObj [(''Build'', JObj [(''level'', JNum 90)])])])
      else if s = docEmptyVersion then
        Inr (JObj [(''PathOfBuilding'', JObj [(''version'', JStr [])])])
      else if s = docVersionAttribute then
        Inr (JObj [(''PathOfBuilding'',
                    JObj [(''Build'', JObj [(''level'', JNum 90)]),
                          (''@_version'', JStr ''1.4.100'')])])
      else if s = docNumericVersion then
        Inr (JObj [(''PathOfBuilding'', JObj [(''version'', JNum 1)])])
      else Inl ''Unexpected end of input'')"

definition exampleRuntime :: runtime where
  "exampleRuntime =
     \<lparr> fromBase64 = exampleFromBase64,
       inflateSync = (\<lambda>b. if b = ''AAAA'' then Inl ''incorrect header check'' else Inr b),
       inflateRawSync = (\<lambda>b. Inl ''invalid stored block lengths''),
       toUtf8 = (\<lambda>b. b),
       xmlParse = exampleXmlParse,
       sha256Hex = (\<lambda>s. s),
       parseFloat = parseIntStr,
       keystonesData = [],
       stackOf = (\<lambda>m. []),
       CACHE_MAX_SIZE = 100,
       CACHE_TTL_MS = 3600000 \<rparr>"

text \<open>The same platform with its decoder, inflation and XML parser broken.\<close>

definition brokenRuntime :: runtime where
  "brokenRuntime =
     exampleRuntime\<lparr> fromBase64 := (\<lambda>s. []),
                      inflateSync := (\<lambda>b. Inl ''incorrect header check''),
                      xmlParse := (\<lambda>s. Inl ''Unexpected end of input'') \<rparr>"

definition clockOne :: clock where
  "clockOne = \<lparr> atLookup = 1000, atParsed = ''2026-01-15T10:30:00.002Z'', atStore = 1003 \<rparr>"

definition clockTwo :: clock where
  "clockTwo = \<lparr> atLookup = 5000, atParsed = ''2026-01-15T10:30:04.002Z'', atStore = 5003 \<rparr>"

definition exampleBuild :: ParsedBuild where
  "exampleBuild = projr (parseUncached exampleRuntime clockOne ''bmV3'')"

section \<open>Properties\<close>

subsection \<open>Loops that may throw\<close>

lemma forEach_Inr_set:
  "forEach f xs = Inr ys \<Longrightarrow> y \<in> set ys \<Longrightarrow> Inr y \<in> f ` set xs"
proof (induction xs arbitrary: ys)
  case Nil
  then show ?case by simp
next
  case (Cons x xs)
  from Cons.prems(1) obtain z zs where fx: "f x = Inr z" and rest: "forEach f xs = Inr zs"
    and ys: "ys = z # zs"
    by (auto split: sum.splits)
  show ?case
  proof (cases "y = z")
    case True
    with fx show ?thesis by (simp add: image_iff)
  next
    case False
    with Cons.prems(2) ys have "y \<in> set zs" by simp
    with Cons.IH [OF rest] show ?thesis by auto
  qed
qed

lemma forEach_Inr_length: "forEach f xs = Inr ys \<Longrightarrow> length ys = length xs"
  by (induction xs arbitrary: ys) (auto split: sum.splits)

lemma forEach_all_None:
  "\<forall>x\<in>set xs. f x = Inr None \<Longrightarrow> forEach f xs = Inr (replicate (length xs) None)"
  by (induction xs) auto

subsection \<open>Character level\<close>

lemma parseIntStr_cases: "parseIntStr s = NaN \<or> (\<exists>n::int. parseIntStr s = Num (of_int n))"
proof -
  have "\<And>k::nat. \<exists>n::int. (of_nat k :: rat) = of_int n"
    by (metis of_int_of_nat_eq)
  moreover have "\<And>k::nat. \<exists>n::int. - (of_nat k :: rat) = of_int n"
    by (metis of_int_of_nat_eq of_int_minus)
  ultimately show ?thesis
    by (simp add: parseIntStr_def Let_def)
qed

text \<open>
  The clamp works on every number: the level is an integer between 1 and 100 unless it
  is \<open>NaN\<close>.
\<close>

lemma parseCharacter_level_cases:
  "level (parseCharacter b) = NaN
   \<or> (\<exists>n::int. level (parseCharacter b) = Num (of_int n) \<and> 1 \<le> n \<and> n \<le> 100)"
proof (cases "truthy b")
  case False
  have "Num 1 = Num (of_int 1)" by simp
  with False show ?thesis
    by (simp add: parseCharacter_def)
next
  case True
  define v where
    "v = jor (jor (get b ''level'') (optget (get b ''MainSocket'') ''level'')) (JStr ''1'')"
  have l: "level (parseCharacter b) = Math_min (Num 100) (Math_max (Num 1) (parseInt v))"
    using True by (simp add: parseCharacter_def Let_def v_def)
  from parseIntStr_cases [of "ToString v"] show ?thesis
  proof
    assume "parseIntStr (ToString v) = NaN"
    with l show ?thesis by (simp add: parseInt_def)
  next
    assume "\<exists>n::int. parseIntStr (ToString v) = Num (of_int n)"
    then obtain n :: int where n: "parseInt v = Num (of_int n)"
      by (auto simp: parseInt_def)
    have "min (100::rat) (max 1 (of_int n)) = of_int (min 100 (max 1 n))"
      by (simp add: min_def max_def)
    with l n have "level (parseCharacter b) = Num (of_int (min 100 (max 1 n)))"
      by simp
    moreover have "1 \<le> min 100 (max 1 n)" "min 100 (max 1 n) \<le> 100"
      by simp_all
    ultimately show ?thesis by blast
  qed
qed

text \<open>
  C9.  The claim: for every build section, also one whose level attribute is a
  non-numeric string, the extracted level is an integer in the range 1 to 100.  The code
  clamps with \<open>Math.min(100, Math.max(1, level))\<close>, which passes \<open>NaN\<close> through: for the
  level attribute \<open>abc\<close>, \<open>parseInt\<close> gives \<open>NaN\<close> and so is the extracted level.
\<close>

theorem parseCharacter_level_NaN:
  "level (parseCharacter buildSectionBadLevel) = NaN"
  by code_simp

subsection \<open>Skills\<close>

text \<open>
  When the skill entries do form an array and no entry makes the extractor throw, there is
  one skill setup per entry, in order, the i-th with the id \<open>skill-i\<close>.
\<close>

lemma skillSetupOf_skillId:
  "skillSetupOf (i, skill) = Inr st \<Longrightarrow> skillId st = ''skill-'' @ showNat (i + 1)"
  by (auto simp: skillSetupOf_def Let_def split: sum.splits)

lemma forEach_enumerate_skillId:
  "forEach skillSetupOf (enumerate n xs) = Inr r \<Longrightarrow>
   map skillId r = map (\<lambda>i. ''skill-'' @ showNat (i + 1)) [n..<n + length xs]"
proof (induction xs arbitrary: n r)
  case Nil
  then show ?case by simp
next
  case (Cons x xs)
  from Cons.prems obtain st sts where st: "skillSetupOf (n, x) = Inr st"
    and sts: "forEach skillSetupOf (enumerate (Suc n) xs) = Inr sts" and r: "r = st # sts"
    by (auto split: sum.splits)
  have lt: "n < n + length (x # xs)"
    by simp
  have e: "n + length (x # xs) = Suc n + length xs"
    by simp
  have u: "[n..<n + length (x # xs)] = n # [Suc n..<Suc n + length xs]"
    using upt_conv_Cons [OF lt] unfolding e .
  have "map skillId r = skillId st # map skillId sts"
    using r by simp
  also have "\<dots> = (''skill-'' @ showNat (n + 1))
                    # map (\<lambda>i. ''skill-'' @ showNat (i + 1)) [Suc n..<Suc n + length xs]"
    by (simp only: Cons.IH [OF sts] skillSetupOf_skillId [OF st])
  also have "\<dots> = map (\<lambda>i. ''skill-'' @ showNat (i + 1)) (n # [Suc n..<Suc n + length xs])"
    by (simp only: list.map)
  also have "\<dots> = map (\<lambda>i. ''skill-'' @ showNat (i + 1)) [n..<n + length (x # xs)]"
    by (simp only: u)
  finally show ?case .
qed

lemma parseSkills_array:
  assumes "truthy skillsSection" and "get skillsSection ''Skill'' = JArr xs"
    and "parseSkills skillsSection = Inr r"
  shows "length r = length xs
       \<and> map skillId r = map (\<lambda>i. ''skill-'' @ showNat (i + 1)) [0..<length xs]"
proof -
  from assms have f: "forEach skillSetupOf (enumerate 0 xs) = Inr r"
    by (simp add: parseSkills_def)
  from forEach_Inr_length [OF f] forEach_enumerate_skillId [OF f] show ?thesis
    by simp
qed

text \<open>
  The link count is never less than the number of supports plus one; it is more when a
  linked gem entry is not typed \<open>Support\<close>.
\<close>

lemma parseSupportGems_length:
  assumes "parseSupportGems skill = Inr sups"
  shows "length sups \<le> (if isArray (get (get skill ''gems'') ''Gem'')
                          then length (asArray (get (get skill ''gems'') ''Gem'')) else 0)"
proof (cases "truthy (get skill ''gems'') \<and> isArray (get (get skill ''gems'') ''Gem'')")
  case False
  with assms show ?thesis
    by (auto simp: parseSupportGems_def getProp_def split: if_splits)
next
  case True
  with assms obtain tagged where
    t: "forEach (\<lambda>gem. case getProp gem ''type'' of Inl e \<Rightarrow> Inl e
                        | Inr t \<Rightarrow> Inr (gem, t = JStr ''Support''))
          (asArray (get (get skill ''gems'') ''Gem'')) = Inr tagged"
    and s: "length sups = length (filter snd tagged)"
    by (auto simp: parseSupportGems_def getProp_def split: if_splits sum.splits)
  from forEach_Inr_length [OF t] s True show ?thesis
    by (simp add: le_trans [OF length_filter_le])
qed

lemma skillSetupOf_linkCount:
  assumes "skillSetupOf (i, skill) = Inr st"
  shows "length (supports st) + 1 \<le> linkCount st"
proof -
  from assms obtain sups links where s: "parseSupportGems skill = Inr sups"
    and l: "calculateLinkCount skill = Inr links"
    and st: "supports st = sups" "linkCount st = links"
    by (auto simp: skillSetupOf_def Let_def split: sum.splits)
  from l have nn: "\<not> nullish skill"
    by (cases skill) (auto simp: calculateLinkCount_def getProp_def)
  show ?thesis
  proof (cases "isArray (get (get skill ''gems'') ''Gem'')")
    case False
    with parseSupportGems_length [OF s] have "sups = []" by simp
    moreover from l have "1 \<le> links"
      by (auto simp: calculateLinkCount_def Let_def split: sum.splits)
    ultimately show ?thesis using st by simp
  next
    case True
    then obtain gs where gs: "get (get skill ''gems'') ''Gem'' = JArr gs"
      by (cases "get (get skill ''gems'') ''Gem''") auto
    then have "\<not> nullish (get skill ''gems'')"
      by (cases "get skill ''gems''") auto
    with l nn gs have "links = length gs + 1"
      by (cases skill) (auto simp: calculateLinkCount_def getProp_def optget_def Let_def)
    with parseSupportGems_length [OF s] gs st show ?thesis by simp
  qed
qed

text \<open>
  C8.  The claim: a skills section with N skill entries, for every N from 1 on, yields N
  skill setups in document order with the ids \<open>skill-1\<close>, \<open>skill-2\<close>, ...  The code
  returns the empty list unless the entries form an array, before the line that would
  wrap a single entry into a one-element array: a section with exactly one skill entry
  yields no skill setup at all.
\<close>

theorem parseSkills_single_entry_dropped:
  "parseSkills skillsSectionOne = Inr []"
  by code_simp

theorem parseSkills_single_entry_dropped_witness:
  "length (projr (parseSkills skillsSectionOne)) = 0"
  using parseSkills_single_entry_dropped by simp

text \<open>
  C3.  The claim: in every extracted skill setup, the link count is the number of
  supports plus one.  The code counts every linked gem entry, of whatever type, and counts
  a single entry that is not an array as one, while the support list keeps only the
  entries of an array that are typed \<open>Support\<close>: here the first setup has one support
  and link count 3, the second has no support and link count 2.
\<close>

theorem parseSkills_linkCount_exceeds_supports:
  "\<not> isl (parseSkills skillsSectionTwo)
   \<and> map (\<lambda>s. (length (supports s), linkCount s)) (projr (parseSkills skillsSectionTwo))
       = [(1, 3), (0, 2)]"
  by code_simp

theorem parseSkills_linkCount_exceeds_supports_witness:
  "map linkCount (projr (parseSkills skillsSectionTwo)) = [3, 2]
   \<and> map (\<lambda>s. length (supports s) + 1) (projr (parseSkills skillsSectionTwo)) = [2, 1]"
proof -
  from parseSkills_linkCount_exceeds_supports
  have "map (\<lambda>s. (length (supports s), linkCount s)) (projr (parseSkills skillsSectionTwo))
        = [(1, 3), (0, 2)]"
    by simp
  then have "map snd (map (\<lambda>s. (length (supports s), linkCount s))
                        (projr (parseSkills skillsSectionTwo))) = [3, 2]"
    and "map (\<lambda>p. fst p + 1) (map (\<lambda>s. (length (supports s), linkCount s))
                        (projr (parseSkills skillsSectionTwo))) = [2, 1]"
    by simp_all
  then show ?thesis by (simp add: comp_def)
qed

subsection \<open>Gear slots\<close>

lemma fillSlot_slot: "slot (fillSlot slots s) = JStr s"
  by (auto simp: fillSlot_def createEmptySlot_def split: option.splits dest: find_Some_iff [THEN iffD1])

lemma fillSlot_cases: "fillSlot slots s = createEmptySlot s \<or> fillSlot slots s \<in> set slots"
  by (auto simp: fillSlot_def find_Some_iff split: option.splits)

lemma GEAR_SLOTS_length: "length GEAR_SLOTS = 15"
  by (simp add: GEAR_SLOTS_def)

lemma GEAR_SLOTS_distinct: "distinct GEAR_SLOTS"
  by (simp add: GEAR_SLOTS_def)

lemma map_filter_id_set: "g \<in> set (List.map_filter (\<lambda>x. x) found) \<Longrightarrow> Some g \<in> set found"
  by (auto simp: List.map_filter_def)

text \<open>
  C4, as the code has it.  Whenever the gear extractor returns, it returns exactly
  fifteen entries, one per slot type in the fixed order and so without a duplicate, each
  of them the empty placeholder of its slot or an item parsed from the section.  (It
  returns the fifteen placeholders for an absent section; it does not return for every
  malformed one, see below.)
\<close>

theorem parseGear_fifteen_slots:
  assumes "parseGear gearSection = Inr slots"
  shows "length slots = 15 \<and> map slot slots = map JStr GEAR_SLOTS \<and> distinct (map slot slots)
         \<and> list_all (\<lambda>g. g \<in> createEmptySlot ` set GEAR_SLOTS
                          \<or> Inr (Some g) \<in> parseGearSlot ` set (asArray (get gearSection ''Item''))) slots"
proof -
  have d: "distinct (map JStr GEAR_SLOTS)"
    by (simp add: distinct_map GEAR_SLOTS_distinct inj_on_def)
  show ?thesis
  proof (cases "\<not> truthy gearSection \<or> \<not> truthy (get gearSection ''Item'')")
    case True
    with assms have g: "slots = map createEmptySlot GEAR_SLOTS"
      by (auto simp: parseGear_def)
    have len: "length slots = 15"
      unfolding g by (simp add: GEAR_SLOTS_length)
    have sl: "map slot slots = map JStr GEAR_SLOTS"
      unfolding g by (simp add: createEmptySlot_def comp_def)
    have la: "list_all (\<lambda>g. g \<in> createEmptySlot ` set GEAR_SLOTS
                          \<or> Inr (Some g) \<in> parseGearSlot ` set (asArray (get gearSection ''Item''))) slots"
      unfolding g by (simp add: list_all_iff)
    from len sl d la show ?thesis by simp
  next
    case False
    with assms obtain found where
      f: "forEach parseGearSlot (asArray (get gearSection ''Item'')) = Inr found"
      and g: "slots = map (fillSlot (List.map_filter (\<lambda>x. x) found)) GEAR_SLOTS"
      by (auto simp: parseGear_def Let_def split: sum.splits)
    have len: "length slots = 15"
      unfolding g by (simp add: GEAR_SLOTS_length)
    have sl: "map slot slots = map JStr GEAR_SLOTS"
      unfolding g by (simp add: fillSlot_slot comp_def)
    have la: "list_all (\<lambda>g. g \<in> createEmptySlot ` set GEAR_SLOTS
                          \<or> Inr (Some g) \<in> parseGearSlot ` set (asArray (get gearSection ''Item''))) slots"
      unfolding g list_all_iff
    proof
      fix x assume "x \<in> set (map (fillSlot (List.map_filter (\<lambda>x. x) found)) GEAR_SLOTS)"
      then obtain s where s: "s \<in> set GEAR_SLOTS"
        and x: "x = fillSlot (List.map_filter (\<lambda>x. x) found) s"
        by auto
      from fillSlot_cases [of "List.map_filter (\<lambda>x. x) found" s]
      show "x \<in> createEmptySlot ` set GEAR_SLOTS
             \<or> Inr (Some x) \<in> parseGearSlot ` set (asArray (get gearSection ''Item''))"
      proof
        assume "fillSlot (List.map_filter (\<lambda>x. x) found) s = createEmptySlot s"
        with s x show ?thesis by simp
      next
        assume "fillSlot (List.map_filter (\<lambda>x. x) found) s \<in> set (List.map_filter (\<lambda>x. x) found)"
        with x have "Some x \<in> set found" by (simp add: map_filter_id_set)
        with forEach_Inr_set [OF f] show ?thesis by simp
      qed
    qed
    from len sl d la show ?thesis by simp
  qed
qed

theorem parseGear_fifteen_slots_witness:
  "\<not> isl (parseGear gearExample)
   \<and> length (projr (parseGear gearExample)) = 15
   \<and> map slot (projr (parseGear gearExample)) = map JStr GEAR_SLOTS
   \<and> itemName (projr (parseGear gearExample) ! 0) = JStr ''Sword''
   \<and> itemName (projr (parseGear gearExample) ! 1) = JStr ''Empty''
   \<and> itemName (projr (parseGear gearExample) ! 10) = JStr ''Ruby Flask''"
proof -
  have r: "\<not> isl (parseGear gearExample)"
    by code_simp
  then have g: "parseGear gearExample = Inr (projr (parseGear gearExample))"
    by simp
  have i: "itemName (projr (parseGear gearExample) ! 0) = JStr ''Sword''"
    "itemName (projr (parseGear gearExample) ! 1) = JStr ''Empty''"
    "itemName (projr (parseGear gearExample) ! 10) = JStr ''Ruby Flask''"
    by code_simp+
  from parseGear_fifteen_slots [OF g] r i show ?thesis by simp
qed

text \<open>An absent or item-less section yields the fifteen empty placeholders.\<close>

lemma parseGear_absent:
  "\<not> truthy gearSection \<or> \<not> truthy (get gearSection ''Item'')
   \<Longrightarrow> parseGear gearSection = Inr (map createEmptySlot GEAR_SLOTS)"
  by (auto simp: parseGear_def)

text \<open>
  So does a section none of whose items has a name under \<open>$\<close>: no item is given a
  slot then.
\<close>

lemma parseGear_nameless_items:
  assumes "\<forall>item\<in>set (asArray (get gearSection ''Item'')). \<not> truthy (get item ''$'')"
  shows "parseGear gearSection = Inr (map createEmptySlot GEAR_SLOTS)"
proof (cases "\<not> truthy gearSection \<or> \<not> truthy (get gearSection ''Item'')")
  case True
  then show ?thesis by (auto simp: parseGear_def)
next
  case False
  from assms have "\<forall>item\<in>set (asArray (get gearSection ''Item'')). parseGearSlot item = Inr None"
    by (simp add: parseGearSlot_def)
  from forEach_all_None [OF this]
  have f: "forEach parseGearSlot (asArray (get gearSection ''Item''))
           = Inr (replicate (length (asArray (get gearSection ''Item''))) None)" .
  have m: "List.map_filter (\<lambda>x. x) (replicate n (None :: GearSlot option)) = []" for n
    by (induction n) (simp_all add: List.map_filter_def)
  have e: "fillSlot [] = createEmptySlot"
    by (rule ext) (simp add: fillSlot_def)
  from False show ?thesis
    by (simp add: parseGear_def f m e)
qed

text \<open>
  C4, as claimed for any input, fails: an item without a slot whose name is a number
  makes the extractor throw a \<open>TypeError\<close> instead of returning a list.
\<close>

theorem parseGear_throws_on_numeric_name:
  "parseGear gearNumericName = Inl (TypeError ''item.$.toLowerCase is not a function'')"
  by code_simp

subsection \<open>Rescoring of suggestions\<close>

text \<open>
  What the rescoring step computes: a suggestion leaves it critical exactly when it entered
  critical or some weakness of the analysis contains a critical phrase.
\<close>

lemma scoreSuggestionPriority_critical_iff:
  "(priority (scoreSuggestionPriority suggestion analysis) = critical)
     = (priority suggestion = critical \<or> addressesCriticalWeakness analysis)"
  by (cases "priority suggestion") (auto simp: scoreSuggestionPriority_def Let_def)

text \<open>
  C1, as the code has it.  A suggestion is rewritten to critical only when some weakness
  string of the analysis, lower-cased, contains one of the critical phrases: without such
  a weakness no suggestion is upgraded.  A suggestion that is critical stays critical.
\<close>

theorem scoreSuggestionPriority_upgrade:
  "(priority (scoreSuggestionPriority suggestion analysis) = critical \<longrightarrow>
      priority suggestion = critical \<or> addressesCriticalWeakness analysis)
   \<and> (priority suggestion = critical \<longrightarrow>
      priority (scoreSuggestionPriority suggestion analysis) = critical)"
  by (cases "priority suggestion") (auto simp: scoreSuggestionPriority_def Let_def)

theorem scoreSuggestionPriority_upgrade_witness:
  "priority (scoreSuggestionPriority suggestionSwapGem analysisUncapped) = critical
   \<and> priority suggestionSwapGem = optional
   \<and> addressesCriticalWeakness analysisUncapped"
proof -
  have c: "priority (scoreSuggestionPriority suggestionSwapGem analysisUncapped) = critical"
    by code_simp
  have o: "priority suggestionSwapGem = optional"
    by (simp add: suggestionSwapGem_def)
  from scoreSuggestionPriority_upgrade [of suggestionSwapGem analysisUncapped] c o
  show ?thesis by simp
qed

text \<open>
  C1, as claimed in terms of the suggestion's own description, fails in both directions:
  a suggestion whose description has none of the phrases is upgraded to critical when the
  analysis lists an uncapped resistance, and a suggestion whose description contains
  \<open>empty\<close> stays optional when the analysis lists no weakness.
\<close>

theorem scoreSuggestionPriority_ignores_description:
  "priority suggestionSwapGem = optional
   \<and> \<not> spec_descriptionIsCritical suggestionSwapGem
   \<and> priority (scoreSuggestionPriority suggestionSwapGem analysisUncapped) = critical
   \<and> spec_descriptionIsCritical suggestionEmptySlot
   \<and> priority (scoreSuggestionPriority suggestionEmptySlot analysisNoWeakness) = optional"
  by code_simp

subsection \<open>Defensive classification\<close>



subsection \<open>Decompression with fallback\<close>

text \<open>
  C6, as the code has it.  When both framings fail on a non-empty byte sequence (each by
  throwing, or by producing nothing), the decoder fails with the code
  \<open>DECOMPRESSION_ERROR\<close>, a message that names both framings, and details made of
  \<open>zlib: \<close> and the decoder's own message for the standard-framing failure.
\<close>

theorem decompressWithFallback_both_fail:
  assumes nonempty: "compressed \<noteq> []"
    and zlib: "inflateSync rt compressed = Inl m1 \<or> inflateSync rt compressed = Inr []"
    and raw: "inflateRawSync rt compressed = Inl m2 \<or> inflateRawSync rt compressed = Inr []"
  shows "decompressWithFallback rt compressed =
           Inl (PoBParsingError DECOMPRESSION_ERROR
                  ''Failed to decompress with both zlib and raw deflate''
                  (Some (''zlib: '' @ (if inflateSync rt compressed = Inr []
                                        then ''Decompressed buffer is empty''
                                        else ''Failed to decompress zlib data''))))"
proof -
  from nonempty zlib have z: "decompressZlib rt compressed =
      Inl (PoBParsingError DECOMPRESSION_ERROR
             (if inflateSync rt compressed = Inr [] then ''Decompressed buffer is empty''
              else ''Failed to decompress zlib data'')
             (if inflateSync rt compressed = Inr [] then None else Some m1))"
    by (auto simp: decompressZlib_def)
  from raw show ?thesis
    by (auto simp: decompressWithFallback_def z bothFailed_def)
qed

theorem decompressWithFallback_both_fail_witness:
  "decompressWithFallback exampleRuntime ''AAAA'' =
     Inl (PoBParsingError DECOMPRESSION_ERROR
            ''Failed to decompress with both zlib and raw deflate''
            (Some ''zlib: Failed to decompress zlib data''))"
proof -
  have z: "inflateSync exampleRuntime ''AAAA'' = Inl ''incorrect header check''"
    by (simp add: exampleRuntime_def)
  have r: "inflateRawSync exampleRuntime ''AAAA'' = Inl ''invalid stored block lengths''"
    by (simp add: exampleRuntime_def)
  have n: "''AAAA'' \<noteq> []" by simp
  from decompressWithFallback_both_fail [OF n, of exampleRuntime "''incorrect header check''"
      "''invalid stored block lengths''"] z r
  show ?thesis by simp
qed

text \<open>
  C6, as claimed, fails: the details carry neither the message of the raw-framing failure
  nor the message the standard inflation threw.
\<close>

theorem decompressWithFallback_details_lack_messages:
  "inflateSync exampleRuntime ''AAAA'' = Inl ''incorrect header check''
   \<and> inflateRawSync exampleRuntime ''AAAA'' = Inl ''invalid stored block lengths''
   \<and> decompressWithFallback exampleRuntime ''AAAA'' =
       Inl (PoBParsingError DECOMPRESSION_ERROR
              ''Failed to decompress with both zlib and raw deflate''
              (Some ''zlib: Failed to decompress zlib data''))
   \<and> \<not> str_includes ''zlib: Failed to decompress zlib data'' ''invalid stored block lengths''
   \<and> \<not> str_includes ''zlib: Failed to decompress zlib data'' ''incorrect header check''"
  by code_simp

subsection \<open>Version gate\<close>

lemma startsWith_append: "startsWith (ys @ zs) ys"
  by (induction ys) auto

lemma str_includes_self_append: "str_includes (ys @ zs) ys"
  by (cases "ys @ zs") (auto simp: startsWith_append dest: arg_cong [where f = "\<lambda>l. startsWith l ys"])

lemma str_includes_append: "str_includes (xs @ ys @ zs) ys"
proof (induction xs)
  case Nil
  show ?case by (simp add: str_includes_self_append)
next
  case (Cons x xs)
  then show ?case by simp
qed

lemma validatePoBVersion_absent:
  "get pobXML ''version'' = JUndefined \<Longrightarrow> \<not> nullish pobXML \<Longrightarrow>
   validatePoBVersion pobXML =
     Inl (PoBParsingError UNSUPPORTED_VERSION ''PoB version not specified'' None)"
  by (cases pobXML) (auto simp: validatePoBVersion_def getProp_def)

lemma validatePoBVersion_below:
  "get pobXML ''version'' = JStr v \<Longrightarrow> v \<noteq> [] \<Longrightarrow> strLess v minVersion \<Longrightarrow>
   validatePoBVersion pobXML =
     Inl (PoBParsingError UNSUPPORTED_VERSION
            (''PoB version '' @ v @ '' is not supported (minimum: '' @ minVersion @ '')'') None)"
  by (cases pobXML) (auto simp: validatePoBVersion_def getProp_def)

lemma parsePoBXML_truthy: "parsePoBXML rt buildCode = Inr pobXML \<Longrightarrow> truthy pobXML"
  by (auto simp: parsePoBXML_def split: sum.splits if_splits)

lemma truthy_not_nullish: "truthy v \<Longrightarrow> \<not> nullish v"
  by (cases v) auto

lemma handler_miss_error:
  "fst (getCachedBuild rt (atLookup clk) c buildCode) = None \<Longrightarrow>
   parseUncached rt clk buildCode = Inl e \<Longrightarrow>
   fst (handler rt clk c buildCode) = Failure (wrapError rt e ''parse_pob_code'')"
  by (cases "getCachedBuild rt (atLookup clk) c buildCode") (auto simp: handler_def)

text \<open>
  What the gate does with the root object the parser delivered, for a build code that is
  not in the cache: when the object has no property \<open>version\<close>, the parse operation
  fails with the code \<open>UNSUPPORTED_VERSION\<close>; when that property is a non-empty string
  that sorts below the minimum \<open>1.4.170\<close>, it fails with that code and a message that
  includes the minimum.
\<close>

lemma handler_version_gate:
  assumes parsed: "parsePoBXML rt buildCode = Inr pobXML"
    and miss: "fst (getCachedBuild rt (atLookup clk) c buildCode) = None"
  shows "(get pobXML ''version'' = JUndefined \<longrightarrow>
            fst (handler rt clk c buildCode) =
              Failure \<lparr> code = UNSUPPORTED_VERSION, message = ''PoB version not specified'',
                        details = [] \<rparr>)
       \<and> (get pobXML ''version'' = JStr v \<and> v \<noteq> [] \<and> strLess v minVersion \<longrightarrow>
            fst (handler rt clk c buildCode) =
              Failure \<lparr> code = UNSUPPORTED_VERSION,
                        message = ''PoB version '' @ v @ '' is not supported (minimum: ''
                                    @ minVersion @ '')'',
                        details = [] \<rparr>
            \<and> str_includes (''PoB version '' @ v @ '' is not supported (minimum: ''
                                    @ minVersion @ '')'') minVersion)"
proof -
  from parsed have nn: "\<not> nullish pobXML"
    by (simp add: parsePoBXML_truthy truthy_not_nullish)
  have a: "fst (handler rt clk c buildCode) =
              Failure \<lparr> code = UNSUPPORTED_VERSION, message = ''PoB version not specified'',
                        details = [] \<rparr>"
    if "get pobXML ''version'' = JUndefined"
  proof -
    from that nn have "parseUncached rt clk buildCode =
        Inl (PoBParsingError UNSUPPORTED_VERSION ''PoB version not specified'' None)"
      by (simp add: parseUncached_def parsed validatePoBVersion_absent)
    from handler_miss_error [OF miss this] show ?thesis
      by (simp add: createErrorResponse_def)
  qed
  have b: "fst (handler rt clk c buildCode) =
              Failure \<lparr> code = UNSUPPORTED_VERSION,
                        message = ''PoB version '' @ v @ '' is not supported (minimum: ''
                                    @ minVersion @ '')'',
                        details = [] \<rparr>"
    if "get pobXML ''version'' = JStr v" "v \<noteq> []" "strLess v minVersion"
  proof -
    from that have "parseUncached rt clk buildCode =
        Inl (PoBParsingError UNSUPPORTED_VERSION
            (''PoB version '' @ v @ '' is not supported (minimum: '' @ minVersion @ '')'') None)"
      by (simp add: parseUncached_def parsed validatePoBVersion_below)
    from handler_miss_error [OF miss this] show ?thesis
      by (simp add: createErrorResponse_def)
  qed
  have s: "str_includes (''PoB version '' @ v @ '' is not supported (minimum: ''
                                    @ minVersion @ '')'') minVersion"
    using str_includes_append [of "''PoB version '' @ v @ '' is not supported (minimum: ''" minVersion "'')''"]
    by simp
  from a b s show ?thesis by blast
qed

lemma handler_version_gate_child_elements:
  "fst (handler exampleRuntime clockOne [] ''bm9uZQ=='') =
     Failure \<lparr> code = UNSUPPORTED_VERSION, message = ''PoB version not specified'',
               details = [] \<rparr>
   \<and> fst (handler exampleRuntime clockOne [] ''b2xk'') =
     Failure \<lparr> code = UNSUPPORTED_VERSION,
               message = ''PoB version 1.4.100 is not supported (minimum: 1.4.170)'',
               details = [] \<rparr>"
proof -
  have p1: "parsePoBXML exampleRuntime ''bm9uZQ=='' =
              Inr (JObj [(''Build'', JObj [(''level'', JNum 90)])])"
    by code_simp
  have p2: "parsePoBXML exampleRuntime ''b2xk'' = Inr (JObj [(''version'', JStr ''1.4.100'')])"
    by code_simp
  have m1: "fst (getCachedBuild exampleRuntime (atLookup clockOne) [] ''bm9uZQ=='') = None"
    by (simp add: getCachedBuild_def cacheGet_def)
  have m2: "fst (getCachedBuild exampleRuntime (atLookup clockOne) [] ''b2xk'') = None"
    by (simp add: getCachedBuild_def cacheGet_def)
  have l: "strLess ''1.4.100'' minVersion"
    by code_simp
  from handler_version_gate [OF p1 m1, of "[]"] handler_version_gate [OF p2 m2, of "''1.4.100''"] l
  show ?thesis by (simp add: minVersion_def)
qed

text \<open>
  An empty \<open>version\<close> element is treated as no version: the message does not include
  the minimum.
\<close>

lemma handler_empty_version_element:
  "strLess [] minVersion
   \<and> parsePoBXML exampleRuntime ''ZW1wdHk='' = Inr (JObj [(''version'', JStr [])])
   \<and> fst (handler exampleRuntime clockOne [] ''ZW1wdHk='') =
       Failure \<lparr> code = UNSUPPORTED_VERSION, message = ''PoB version not specified'',
                 details = [] \<rparr>
   \<and> \<not> str_includes ''PoB version not specified'' minVersion"
  by code_simp

text \<open>
  C7.  The claim: a document whose root carries no version attribute fails with
  \<open>UNSUPPORTED_VERSION\<close>, and a document declaring a version string that sorts below
  \<open>1.4.170\<close>, such as \<open>1.4.100\<close>, fails with that code and a message that includes the
  minimum.  The parser delivers the root's version attribute under \<open>@_version\<close>, and the
  gate reads \<open>version\<close>: the attribute is never seen.  The document that declares the
  version 1.4.100 as an attribute fails with the message \<open>PoB version not specified\<close>,
  which does not include the minimum; a document with no version attribute and a child
  element \<open>version\<close> of 1.4.170 parses; and a child element \<open>version\<close> of 1 arrives as
  a number, which passes the gate although the string \<open>1\<close> sorts below the minimum.
\<close>

theorem version_attribute_not_read:
  "parsePoBXML exampleRuntime ''YXR0cg=='' =
     Inr (JObj [(''Build'', JObj [(''level'', JNum 90)]), (''@_version'', JStr ''1.4.100'')])
   \<and> fst (handler exampleRuntime clockOne [] ''YXR0cg=='') =
       Failure \<lparr> code = UNSUPPORTED_VERSION, message = ''PoB version not specified'',
                 details = [] \<rparr>
   \<and> \<not> str_includes ''PoB version not specified'' minVersion
   \<and> parsePoBXML exampleRuntime ''bmV3'' =
       Inr (JObj [(''version'', JStr ''1.4.170''), (''Build'', JObj [(''level'', JNum 90)])])
   \<and> (case fst (handler exampleRuntime clockOne [] ''bmV3'') of
         Success b \<Rightarrow> version b
       | Failure e \<Rightarrow> JUndefined) = JStr ''1.4.170''
   \<and> strLess ''1'' minVersion
   \<and> parsePoBXML exampleRuntime ''bnVt'' = Inr (JObj [(''version'', JNum 1)])
   \<and> (case fst (handler exampleRuntime clockOne [] ''bnVt'') of
         Success b \<Rightarrow> version b
       | Failure e \<Rightarrow> JUndefined) = JNum 1"
  by code_simp

theorem version_attribute_not_read_witness:
  "fst (handler exampleRuntime clockOne [] ''YXR0cg=='') =
     Failure \<lparr> code = UNSUPPORTED_VERSION, message = ''PoB version not specified'',
               details = [] \<rparr>"
  using version_attribute_not_read by simp

subsection \<open>Parsing the same input twice\<close>

lemma cacheGet_Some:
  "cacheGet rt now k c = (Some b, c1) \<Longrightarrow>
   \<exists>e rest. c1 = e # rest \<and> cacheKey e = k \<and> cached e = b \<and> start e = now"
  by (auto simp: cacheGet_def find_Some_iff split: option.splits if_splits)

lemma cacheSet_head:
  "\<exists>rest. cacheSet rt now k v c = \<lparr> cacheKey = k, cached = v, start = now \<rparr> # rest"
proof (cases "filter (\<lambda>e. cacheKey e \<noteq> k) c")
  case Nil
  then show ?thesis by (auto simp: cacheSet_def Let_def)
next
  case (Cons a as)
  then show ?thesis by (auto simp: cacheSet_def Let_def)
qed

lemma handler_Success_head:
  assumes "handler rt clk c x = (Success b, c1)"
  shows "\<exists>e rest. c1 = e # rest \<and> cacheKey e = generateCacheKey rt x \<and> cached e = b
           \<and> (start e = atLookup clk \<or> start e = atStore clk)"
proof (cases "getCachedBuild rt (atLookup clk) c x")
  case (Pair hit c')
  show ?thesis
  proof (cases hit)
    case None
    with Pair assms obtain build where "parseUncached rt clk x = Inr build"
      and "b = build" and c1: "c1 = setCachedBuild rt (atStore clk) c' x build"
      by (auto simp: handler_def split: sum.splits)
    with cacheSet_head [of rt "atStore clk" "generateCacheKey rt x" b c']
    show ?thesis by (auto simp: setCachedBuild_def)
  next
    case (Some cb)
    with Pair assms have "cb = b" and "c' = c1"
      by (auto simp: handler_def)
    with Pair Some have "cacheGet rt (atLookup clk) (generateCacheKey rt x) c = (Some b, c1)"
      by (simp add: getCachedBuild_def)
    from cacheGet_Some [OF this] show ?thesis by auto
  qed
qed

lemma cacheGet_head_live:
  "cacheKey e = k \<Longrightarrow> \<not> isStale rt now e \<Longrightarrow> fst (cacheGet rt now k (e # rest)) = Some (cached e)"
  by (simp add: cacheGet_def)

text \<open>
  C2.  When a parse of \<open>x\<close> succeeds with a build and the next call parses \<open>x\<close> again
  before the time to live has elapsed, the second call finds that build in the cache and
  returns it.  The second call's platform \<open>rt'\<close> is arbitrary but for the digest and the
  time to live: the decoder, the XML parser and the extractors are not consulted.
\<close>

theorem parse_twice_served_from_cache:
  assumes first: "handler rt clk1 c0 x = (Success b, c1)"
    and order: "atLookup clk1 \<le> atStore clk1"
    and live: "atLookup clk2 - atLookup clk1 \<le> CACHE_TTL_MS rt"
    and same_digest: "sha256Hex rt' = sha256Hex rt"
    and same_ttl: "CACHE_TTL_MS rt' = CACHE_TTL_MS rt"
  shows "fst (getCachedBuild rt' (atLookup clk2) c1 x) = Some b
       \<and> fst (handler rt' clk2 c1 x) = Success b"
proof -
  from handler_Success_head [OF first] obtain e rest where
    c1: "c1 = e # rest" and k: "cacheKey e = generateCacheKey rt x" and b: "cached e = b"
    and s: "start e = atLookup clk1 \<or> start e = atStore clk1"
    by blast
  from same_digest k have k': "cacheKey e = generateCacheKey rt' x"
    by (simp add: generateCacheKey_def)
  from s order live have "atLookup clk2 - start e \<le> CACHE_TTL_MS rt"
    by auto
  with same_ttl have "\<not> isStale rt' (atLookup clk2) e"
    by (simp add: isStale_def)
  from cacheGet_head_live [OF k' this, of rest] c1 b
  have hit: "fst (getCachedBuild rt' (atLookup clk2) c1 x) = Some b"
    by (simp add: getCachedBuild_def)
  then have "fst (handler rt' clk2 c1 x) = Success b"
    by (cases "getCachedBuild rt' (atLookup clk2) c1 x") (simp add: handler_def)
  with hit show ?thesis by simp
qed

theorem parse_twice_served_from_cache_witness:
  "fst (handler exampleRuntime clockOne [] ''bmV3'') = Success exampleBuild
   \<and> fst (handler brokenRuntime clockTwo (snd (handler exampleRuntime clockOne [] ''bmV3'')) ''bmV3'')
       = Success exampleBuild
   \<and> parseUncached brokenRuntime clockTwo ''bmV3''
       = Inl (PoBParsingError INVALID_BASE64 ''Decoded buffer is empty'' None)"
proof -
  have f1: "fst (handler exampleRuntime clockOne [] ''bmV3'') = Success exampleBuild"
    by code_simp
  then have f: "handler exampleRuntime clockOne [] ''bmV3''
           = (Success exampleBuild, snd (handler exampleRuntime clockOne [] ''bmV3''))"
    by (metis prod.collapse)
  have o: "atLookup clockOne \<le> atStore clockOne"
    by (simp add: clockOne_def)
  have l: "atLookup clockTwo - atLookup clockOne \<le> CACHE_TTL_MS exampleRuntime"
    by (simp add: clockOne_def clockTwo_def exampleRuntime_def)
  have d: "sha256Hex brokenRuntime = sha256Hex exampleRuntime"
    by (simp add: brokenRuntime_def)
  have t: "CACHE_TTL_MS brokenRuntime = CACHE_TTL_MS exampleRuntime"
    by (simp add: brokenRuntime_def)
  have u: "parseUncached brokenRuntime clockTwo ''bmV3''
       = Inl (PoBParsingError INVALID_BASE64 ''Decoded buffer is empty'' None)"
    by code_simp
  from parse_twice_served_from_cache [OF f o l d t] f1 u show ?thesis by blast
qed

subsection \<open>The build identifier\<close>

lemma parseUncached_buildId: "parseUncached rt clk x = Inr b \<Longrightarrow> buildId b = []"
  by (auto simp: parseUncached_def split: sum.splits)

lemma cacheGet_buildId:
  assumes "list_all (\<lambda>e. buildId (cached e) = []) c"
  shows "list_all (\<lambda>e. buildId (cached e) = []) (snd (cacheGet rt now k c))
       \<and> (fst (cacheGet rt now k c) = Some b \<longrightarrow> buildId b = [])"
proof (cases "find (\<lambda>e. cacheKey e = k) c")
  case None
  with assms show ?thesis by (simp add: cacheGet_def)
next
  case (Some e)
  then have "e \<in> set c" by (auto simp: find_Some_iff)
  with assms have "buildId (cached e) = []" by (simp add: list_all_iff)
  with assms Some show ?thesis by (auto simp: cacheGet_def list_all_iff)
qed

lemma cacheSet_buildId:
  assumes "list_all (\<lambda>e. buildId (cached e) = []) c" and "buildId v = []"
  shows "list_all (\<lambda>e. buildId (cached e) = []) (cacheSet rt now k v c)"
proof -
  let ?c = "\<lparr> cacheKey = k, cached = v, start = now \<rparr> # filter (\<lambda>e. cacheKey e \<noteq> k) c"
  from assms have all: "list_all (\<lambda>e. buildId (cached e) = []) ?c"
    by (simp add: list_all_iff)
  then have "list_all (\<lambda>e. buildId (cached e) = []) (butlast ?c)"
    unfolding list_all_iff by (meson in_set_butlastD)
  with all show ?thesis by (simp add: cacheSet_def Let_def)
qed

lemma handler_buildId:
  assumes inv: "list_all (\<lambda>e. buildId (cached e) = []) c"
  shows "list_all (\<lambda>e. buildId (cached e) = []) (snd (handler rt clk c x))
       \<and> (fst (handler rt clk c x) = Success b \<longrightarrow> buildId b = [])"
proof (cases "getCachedBuild rt (atLookup clk) c x")
  case (Pair hit c')
  from cacheGet_buildId [OF inv, of rt "atLookup clk" "generateCacheKey rt x"] Pair
  have c': "list_all (\<lambda>e. buildId (cached e) = []) c'"
    and h: "\<And>cb. hit = Some cb \<Longrightarrow> buildId cb = []"
    using cacheGet_buildId [OF inv, of rt "atLookup clk" "generateCacheKey rt x"]
    by (simp_all add: getCachedBuild_def)
  show ?thesis
  proof (cases hit)
    case (Some cb)
    with Pair c' h show ?thesis by (auto simp: handler_def)
  next
    case None
    show ?thesis
    proof (cases "parseUncached rt clk x")
      case (Inl e)
      with Pair None c' show ?thesis by (simp add: handler_def)
    next
      case (Inr build)
      then have "buildId build = []" by (rule parseUncached_buildId)
      with Pair None Inr c' cacheSet_buildId [OF c', of build rt "atStore clk" "generateCacheKey rt x"]
      show ?thesis by (auto simp: handler_def setCachedBuild_def)
    qed
  qed
qed

lemma serve_buildId:
  "list_all (\<lambda>e. buildId (cached e) = []) c \<Longrightarrow> Success b \<in> set (serve rt c calls) \<Longrightarrow> buildId b = []"
proof (induction calls arbitrary: c)
  case Nil
  then show ?case by simp
next
  case (Cons call calls)
  from handler_buildId [OF Cons.prems(1), of rt "fst call" "snd call" b]
  have inv': "list_all (\<lambda>e. buildId (cached e) = []) (snd (handler rt (fst call) c (snd call)))"
    and r: "fst (handler rt (fst call) c (snd call)) = Success b \<Longrightarrow> buildId b = []"
    by simp_all
  from Cons.prems(2) have "fst (handler rt (fst call) c (snd call)) = Success b
      \<or> Success b \<in> set (serve rt (snd (handler rt (fst call) c (snd call))) calls)"
    by (simp add: Let_def) metis
  then show ?case
  proof
    assume "fst (handler rt (fst call) c (snd call)) = Success b"
    then show ?thesis by (rule r)
  next
    assume "Success b \<in> set (serve rt (snd (handler rt (fst call) c (snd call))) calls)"
    with Cons.IH [OF inv'] show ?thesis .
  qed
qed

text \<open>
  C10.  In every sequence of parse calls that starts with an empty cache, every build
  returned, freshly assembled or taken from the cache, has the empty string as its
  \<open>buildId\<close>: the field is initialised empty and nothing sets it.
\<close>

theorem buildId_always_empty:
  "Success b \<in> set (serve rt [] calls) \<Longrightarrow> buildId b = []"
  using serve_buildId [of "[]" b rt calls] by simp

theorem buildId_always_empty_witness:
  "serve exampleRuntime [] [(clockOne, ''bmV3''), (clockTwo, ''bmV3'')]
     = [Success exampleBuild, Success exampleBuild]
   \<and> buildId exampleBuild = []"
proof -
  have s: "serve exampleRuntime [] [(clockOne, ''bmV3''), (clockTwo, ''bmV3'')]
     = [Success exampleBuild, Success exampleBuild]"
    by code_simp
  then have "Success exampleBuild
      \<in> set (serve exampleRuntime [] [(clockOne, ''bmV3''), (clockTwo, ''bmV3'')])"
    by simp
  from buildId_always_empty [OF this] s show ?thesis by simp
qed

end
